theory Spec2Isabelle
  imports Main "HOL-Library.Word"
begin

section \<open>Memory blocks\<close>

text \<open>
  The allocator toolkit of \<^verbatim>\<open>HE_Allocator.h\<close>, on a target whose \<^verbatim>\<open>size_t\<close> and
  pointers have 64 bits. A pointer is the address it holds, \<^verbatim>\<open>nullptr\<close> is address 0,
  and adding to a pointer or subtracting from it wraps around at \<open>2 ^ 64\<close>, as the
  arithmetic of \<^verbatim>\<open>size_t\<close> does.
\<close>

type_synonym size_t = "64 word"
type_synonym pointer = "64 word"

abbreviation (input) nullptr :: pointer where
  "nullptr \<equiv> 0"

record MemoryBlock =
  ptr :: pointer
  length' :: size_t

type_synonym Blk = MemoryBlock

definition Blk_begin :: "Blk \<Rightarrow> pointer" where
  "Blk_begin b = ptr b"

definition Blk_end :: "Blk \<Rightarrow> pointer" where
  "Blk_end b = ptr b + length' b"

text \<open>What ends a run: a failed \<^verbatim>\<open>EXPECTS\<close>, a write through a null pointer.\<close>

datatype error = AssertionFailure | NullDereference

section \<open>Helpers declared outside this header\<close>

text \<open>
  Modelled from the spec: \<^verbatim>\<open>Math::IsPow2\<close> of \<^verbatim>\<open>HE_Math.h\<close>, a header that is not
  part of the sources at hand. The specification calls its argument "a power of two".
\<close>

definition IsPow2 :: "size_t \<Rightarrow> bool" where
  "IsPow2 x = (\<exists>k \<in> {0..<64::nat}. unat x = 2 ^ k)"

text \<open>
  Modelled from the spec: \<^verbatim>\<open>Math::RoundUpToMultipleOf\<close> of \<^verbatim>\<open>HE_Math.h\<close>, the
  specification's \<^verbatim>\<open>round_up(x, m)\<close>: the first multiple of \<open>m\<close> from \<open>x\<close> upwards, in
  \<^verbatim>\<open>size_t\<close> arithmetic.
\<close>

definition RoundUpToMultipleOf :: "size_t \<Rightarrow> size_t \<Rightarrow> size_t" where
  "RoundUpToMultipleOf x m = (if x mod m = 0 then x else x + (m - x mod m))"

text \<open>
  \<^verbatim>\<open>PlatformMaxAlignment = Math::Max(alignof(void*), alignof(size_t))\<close>; both are 8 where
  \<^verbatim>\<open>size_t\<close> has 64 bits.
\<close>

definition PlatformMaxAlignment :: size_t where
  "PlatformMaxAlignment = max 8 8"

text \<open>
  Modelled from the spec: the macro \<^verbatim>\<open>EXPECTS\<close> of \<^verbatim>\<open>HE_Assert.h\<close>, which is not at
  hand either. The specification makes a failed precondition a fatal assertion: the
  statements after it run only when the condition holds.
\<close>

definition EXPECTS :: "bool \<Rightarrow> error + 'a \<Rightarrow> error + 'a" where
  "EXPECTS condition rest = (if condition then rest else Inl AssertionFailure)"

section \<open>LightInlineAllocator\<close>

text \<open>
  \<^verbatim>\<open>LightInlineAllocator<N>\<close> holds \<^verbatim>\<open>char m_buffer[N]\<close> and nothing else; the model keeps
  the address of that buffer. No member function writes to the object.
\<close>

record LightInlineAllocator =
  m_buffer :: pointer

definition LightInlineAllocator_alignment :: size_t where
  "LightInlineAllocator_alignment = PlatformMaxAlignment"

definition LightInlineAllocator_allocate ::
  "size_t \<Rightarrow> size_t \<Rightarrow> LightInlineAllocator \<Rightarrow> Blk \<times> LightInlineAllocator" where
  "LightInlineAllocator_allocate N n a =
     (if n \<le> N then (\<lparr>ptr = m_buffer a, length' = n\<rparr>, a)
      else (\<lparr>ptr = nullptr, length' = 0\<rparr>, a))"

text \<open>
  The aligned overload. The two \<^verbatim>\<open>reinterpret_cast\<close>s between the buffer's address and
  \<^verbatim>\<open>size_t\<close> keep the 64 bits.
\<close>

definition LightInlineAllocator_allocate_aligned ::
  "size_t \<Rightarrow> size_t \<Rightarrow> size_t \<Rightarrow> LightInlineAllocator
     \<Rightarrow> error + (Blk \<times> LightInlineAllocator)" where
  "LightInlineAllocator_allocate_aligned N n a s =
     EXPECTS (IsPow2 LightInlineAllocator_alignment \<and> a \<ge> LightInlineAllocator_alignment)
       (let p = RoundUpToMultipleOf (m_buffer s) a;
            b = \<lparr>ptr = p, length' = n\<rparr>
        in if Blk_end b \<le> m_buffer s + N then Inr (b, s)
           else Inr (\<lparr>ptr = nullptr, length' = 0\<rparr>, s))"

definition LightInlineAllocator_owns :: "size_t \<Rightarrow> Blk \<Rightarrow> LightInlineAllocator \<Rightarrow> bool" where
  "LightInlineAllocator_owns N b a =
     (Blk_begin b \<ge> m_buffer a \<and> Blk_end b \<le> m_buffer a + N)"

definition LightInlineAllocator_deallocate ::
  "Blk \<Rightarrow> LightInlineAllocator \<Rightarrow> LightInlineAllocator" where
  "LightInlineAllocator_deallocate b a = a"

section \<open>FallbackAllocator\<close>

text \<open>
  A combinator is a class template over its children and inherits from them. Its model
  takes, as arguments, the member functions of the children that the modelled member
  calls, and its state is the tuple of the children's states (the base subobjects).
  A child's \<^verbatim>\<open>allocate\<close> maps a size and the child's state to a block and the new state,
  its \<^verbatim>\<open>deallocate\<close> maps a block and a state to the new state, and its \<^verbatim>\<open>owns\<close> reads
  the state.
\<close>

definition FallbackAllocator_allocate ::
  "(size_t \<Rightarrow> 'p \<Rightarrow> Blk \<times> 'p) \<Rightarrow> (size_t \<Rightarrow> 'f \<Rightarrow> Blk \<times> 'f)
     \<Rightarrow> size_t \<Rightarrow> 'p \<times> 'f \<Rightarrow> Blk \<times> ('p \<times> 'f)" where
  "FallbackAllocator_allocate P_allocate F_allocate n a =
     (let (blk, p) = P_allocate n (fst a)
      in if ptr blk = nullptr
         then (let (blk', f) = F_allocate n (snd a) in (blk', (p, f)))
         else (blk, (p, snd a)))"

text \<open>Declared only when both children have the aligned \<^verbatim>\<open>allocate\<close>.\<close>

definition FallbackAllocator_allocate_aligned ::
  "(size_t \<Rightarrow> size_t \<Rightarrow> 'p \<Rightarrow> Blk \<times> 'p) \<Rightarrow> (size_t \<Rightarrow> size_t \<Rightarrow> 'f \<Rightarrow> Blk \<times> 'f)
     \<Rightarrow> size_t \<Rightarrow> size_t \<Rightarrow> 'p \<times> 'f \<Rightarrow> Blk \<times> ('p \<times> 'f)" where
  "FallbackAllocator_allocate_aligned P_allocate F_allocate n alignment a =
     (let (blk, p) = P_allocate n alignment (fst a)
      in if ptr blk = nullptr
         then (let (blk', f) = F_allocate n alignment (snd a) in (blk', (p, f)))
         else (blk, (p, snd a)))"

definition FallbackAllocator_deallocate ::
  "(Blk \<Rightarrow> 'p \<Rightarrow> bool) \<Rightarrow> (Blk \<Rightarrow> 'p \<Rightarrow> 'p) \<Rightarrow> (Blk \<Rightarrow> 'f \<Rightarrow> 'f)
     \<Rightarrow> Blk \<Rightarrow> 'p \<times> 'f \<Rightarrow> 'p \<times> 'f" where
  "FallbackAllocator_deallocate P_owns P_deallocate F_deallocate b a =
     (if P_owns b (fst a) then (P_deallocate b (fst a), snd a)
      else (fst a, F_deallocate b (snd a)))"

text \<open>Declared only when the Fallback type has \<^verbatim>\<open>owns\<close> too.\<close>

definition FallbackAllocator_owns ::
  "(Blk \<Rightarrow> 'p \<Rightarrow> bool) \<Rightarrow> (Blk \<Rightarrow> 'f \<Rightarrow> bool) \<Rightarrow> Blk \<Rightarrow> 'p \<times> 'f \<Rightarrow> bool" where
  "FallbackAllocator_owns P_owns F_owns b a = (P_owns b (fst a) \<or> F_owns b (snd a))"

section \<open>FreelistAllocator\<close>

definition Allocator_unbounded :: size_t where
  "Allocator_unbounded = - 1"

text \<open>
  The object holds the Parent subobject, the head of the free list and the node counter.
  A cached block stores a \<^verbatim>\<open>Node\<close> in its first bytes; \<open>Node_next\<close> is that part of the
  memory, the \<^verbatim>\<open>next\<close> field of the node at each address.
\<close>

record 'p FreelistAllocator =
  Parent :: 'p
  m_pFreelistRoot :: pointer
  m_nNodesCount :: size_t
  Node_next :: "pointer \<Rightarrow> pointer"

definition inRange :: "size_t \<Rightarrow> size_t \<Rightarrow> size_t \<Rightarrow> bool" where
  "inRange MinSize MaxSize n =
     (if MinSize = MaxSize then n = MaxSize
      else (MinSize = 0 \<or> n \<ge> MinSize) \<and> n \<le> MaxSize)"

text \<open>
  \<^verbatim>\<open>allocateImpl(n, args...)\<close> hands \<^verbatim>\<open>args...\<close> on to the Parent: \<open>Parent_allocate\<close> is
  the Parent's \<^verbatim>\<open>allocate\<close> with those arguments already given.
\<close>

definition FreelistAllocator_allocateImpl ::
  "(size_t \<Rightarrow> 'p \<Rightarrow> Blk \<times> 'p) \<Rightarrow> size_t \<Rightarrow> size_t
     \<Rightarrow> size_t \<Rightarrow> 'p FreelistAllocator \<Rightarrow> Blk \<times> 'p FreelistAllocator" where
  "FreelistAllocator_allocateImpl Parent_allocate MinSize MaxSize n s =
     (if \<not> inRange MinSize MaxSize n
      then (let (b, p) = Parent_allocate n (Parent s) in (b, s\<lparr>Parent := p\<rparr>))
      else if m_pFreelistRoot s = nullptr
      then (let (b, p) = Parent_allocate MaxSize (Parent s)
            in (\<lparr>ptr = ptr b, length' = n\<rparr>, s\<lparr>Parent := p\<rparr>))
      else (\<lparr>ptr = m_pFreelistRoot s, length' = n\<rparr>,
            s\<lparr>m_pFreelistRoot := Node_next s (m_pFreelistRoot s),
              m_nNodesCount := m_nNodesCount s - 1\<rparr>))"

definition FreelistAllocator_allocate ::
  "(size_t \<Rightarrow> 'p \<Rightarrow> Blk \<times> 'p) \<Rightarrow> size_t \<Rightarrow> size_t
     \<Rightarrow> size_t \<Rightarrow> 'p FreelistAllocator \<Rightarrow> Blk \<times> 'p FreelistAllocator" where
  "FreelistAllocator_allocate Parent_allocate MinSize MaxSize n s =
     FreelistAllocator_allocateImpl Parent_allocate MinSize MaxSize n s"

definition FreelistAllocator_allocate_aligned ::
  "(size_t \<Rightarrow> size_t \<Rightarrow> 'p \<Rightarrow> Blk \<times> 'p) \<Rightarrow> size_t \<Rightarrow> size_t
     \<Rightarrow> size_t \<Rightarrow> size_t \<Rightarrow> 'p FreelistAllocator \<Rightarrow> Blk \<times> 'p FreelistAllocator" where
  "FreelistAllocator_allocate_aligned Parent_allocate MinSize MaxSize n alignment s =
     FreelistAllocator_allocateImpl (\<lambda>m. Parent_allocate m alignment) MinSize MaxSize n s"

text \<open>
  \<^verbatim>\<open>m_pFreelistRoot->next = next\<close> writes into the block being cached; with a null
  \<^verbatim>\<open>b.ptr\<close> that is a write through a null pointer, which ends the run.
\<close>

definition FreelistAllocator_deallocate ::
  "(Blk \<Rightarrow> 'p \<Rightarrow> 'p) \<Rightarrow> size_t \<Rightarrow> size_t \<Rightarrow> size_t
     \<Rightarrow> Blk \<Rightarrow> 'p FreelistAllocator \<Rightarrow> error + 'p FreelistAllocator" where
  "FreelistAllocator_deallocate Parent_deallocate MinSize MaxSize MaxNodes b s =
     (if (MaxNodes = Allocator_unbounded \<or> m_nNodesCount s \<noteq> MaxNodes)
           \<and> inRange MinSize MaxSize (length' b)
      then (let next = m_pFreelistRoot s
            in if ptr b = nullptr then Inl NullDereference
               else Inr (s\<lparr>m_pFreelistRoot := ptr b,
                          Node_next := (Node_next s)(ptr b := next),
                          m_nNodesCount := m_nNodesCount s + 1\<rparr>))
      else Inr (s\<lparr>Parent := Parent_deallocate b (Parent s)\<rparr>))"

text \<open>The overload of \<^verbatim>\<open>deallocateAllImpl\<close> for a Parent that has \<^verbatim>\<open>deallocateAll\<close>.\<close>

definition FreelistAllocator_deallocateAllImpl ::
  "('p \<Rightarrow> 'p) \<Rightarrow> 'p FreelistAllocator \<Rightarrow> 'p FreelistAllocator" where
  "FreelistAllocator_deallocateAllImpl Parent_deallocateAll s =
     s\<lparr>Parent := Parent_deallocateAll (Parent s), m_pFreelistRoot := nullptr\<rparr>"

text \<open>
  The overload for a Parent without \<^verbatim>\<open>deallocateAll\<close> and an unbounded free list: it
  walks the list. The loop need not end (a list can run into itself), so its model is
  partial, and \<open>None\<close> stands for a walk that never returns.
\<close>

partial_function (option) deallocateAllImpl_loop ::
  "(Blk \<Rightarrow> 'p \<Rightarrow> 'p) \<Rightarrow> size_t \<Rightarrow> (pointer \<Rightarrow> pointer) \<Rightarrow> pointer \<Rightarrow> 'p \<Rightarrow> 'p option" where
  "deallocateAllImpl_loop Parent_deallocate MaxSize mem next p =
     (if next \<noteq> nullptr
      then deallocateAllImpl_loop Parent_deallocate MaxSize mem (mem next)
             (Parent_deallocate \<lparr>ptr = next, length' = MaxSize\<rparr> p)
      else Some p)"

definition FreelistAllocator_deallocateAllImpl_unbounded ::
  "(Blk \<Rightarrow> 'p \<Rightarrow> 'p) \<Rightarrow> size_t \<Rightarrow> 'p FreelistAllocator \<Rightarrow> 'p FreelistAllocator option" where
  "FreelistAllocator_deallocateAllImpl_unbounded Parent_deallocate MaxSize s =
     (case deallocateAllImpl_loop Parent_deallocate MaxSize (Node_next s)
             (m_pFreelistRoot s) (Parent s) of
        None \<Rightarrow> None
      | Some p \<Rightarrow> Some (s\<lparr>Parent := p, m_pFreelistRoot := nullptr\<rparr>))"

definition FreelistAllocator_owns ::
  "(Blk \<Rightarrow> 'p \<Rightarrow> bool) \<Rightarrow> Blk \<Rightarrow> 'p FreelistAllocator \<Rightarrow> bool" where
  "FreelistAllocator_owns Parent_owns b s = Parent_owns b (Parent s)"

text \<open>A freshly constructed allocator: \<^verbatim>\<open>m_pFreelistRoot{ nullptr }\<close>, \<^verbatim>\<open>m_nNodesCount{ 0 }\<close>.\<close>

definition FreelistAllocator_new :: "'p \<Rightarrow> (pointer \<Rightarrow> pointer) \<Rightarrow> 'p FreelistAllocator" where
  "FreelistAllocator_new p mem =
     \<lparr>Parent = p, m_pFreelistRoot = nullptr, m_nNodesCount = 0, Node_next = mem\<rparr>"

text \<open>
  The nodes of a free list: \<open>freelist mem p as\<close> says that following \<^verbatim>\<open>next\<close> from \<open>p\<close>
  visits exactly the addresses \<open>as\<close>, in this order, and then reaches \<^verbatim>\<open>nullptr\<close>.
\<close>

fun freelist :: "(pointer \<Rightarrow> pointer) \<Rightarrow> pointer \<Rightarrow> pointer list \<Rightarrow> bool" where
  "freelist mem p [] = (p = nullptr)"
| "freelist mem p (a # as) = (p \<noteq> nullptr \<and> a = p \<and> freelist mem (mem p) as)"

text \<open>The counter agrees with the list: it is the number of nodes reachable from the head.\<close>

definition nodes_counted :: "'p FreelistAllocator \<Rightarrow> bool" where
  "nodes_counted s =
     (\<exists>as. freelist (Node_next s) (m_pFreelistRoot s) as
           \<and> m_nNodesCount s = of_nat (length as))"

section \<open>AffixAllocator\<close>

text \<open>
  What the class reads of its type parameters: \<^verbatim>\<open>StateSize<T>::value\<close> (of
  \<^verbatim>\<open>TMP_Helper.h\<close>, not at hand; a parameter here) and \<^verbatim>\<open>alignof(T)\<close>. A \<^verbatim>\<open>void\<close>
  suffix, which selects the specialisation \<^verbatim>\<open>SuffixImpl<PrefixType, void>\<close>, is \<open>None\<close>.
\<close>

record TypeInfo =
  StateSize :: size_t
  alignof :: size_t

definition totalAllocationSize :: "size_t \<Rightarrow> TypeInfo option \<Rightarrow> size_t \<Rightarrow> size_t" where
  "totalAllocationSize Prefix_StateSize SuffixType s =
     (case SuffixType of
        None \<Rightarrow> s + Prefix_StateSize
      | Some T \<Rightarrow>
          if StateSize T = 0 then s + Prefix_StateSize
          else RoundUpToMultipleOf (s + Prefix_StateSize) (alignof T) + StateSize T)"

definition AffixAllocator_allocate ::
  "(size_t \<Rightarrow> 'p \<Rightarrow> Blk \<times> 'p) \<Rightarrow> size_t \<Rightarrow> TypeInfo option
     \<Rightarrow> size_t \<Rightarrow> 'p \<Rightarrow> Blk \<times> 'p" where
  "AffixAllocator_allocate Parent_allocate Prefix_StateSize SuffixType n p =
     (let (result, p') =
            Parent_allocate (totalAllocationSize Prefix_StateSize SuffixType n) p
      in if ptr result = nullptr then (result, p')
         else (\<lparr>ptr = ptr result + Prefix_StateSize, length' = n\<rparr>, p'))"

definition actualAllocation :: "size_t \<Rightarrow> TypeInfo option \<Rightarrow> Blk \<Rightarrow> Blk" where
  "actualAllocation Prefix_StateSize SuffixType b =
     (if ptr b = nullptr then \<lparr>ptr = nullptr, length' = 0\<rparr>
      else \<lparr>ptr = ptr b - Prefix_StateSize,
            length' = totalAllocationSize Prefix_StateSize SuffixType (length' b)\<rparr>)"

definition AffixAllocator_owns ::
  "(Blk \<Rightarrow> 'p \<Rightarrow> bool) \<Rightarrow> size_t \<Rightarrow> TypeInfo option \<Rightarrow> Blk \<Rightarrow> 'p \<Rightarrow> bool" where
  "AffixAllocator_owns Parent_owns Prefix_StateSize SuffixType b p =
     Parent_owns (actualAllocation Prefix_StateSize SuffixType b) p"


section \<open>SegregateAllocator\<close>

text \<open>\<^verbatim>\<open>Math::Min(SmallAllocator::alignment, LargeAllocator::alignment)\<close>.\<close>

definition SegregateAllocator_alignment :: "size_t \<Rightarrow> size_t \<Rightarrow> size_t" where
  "SegregateAllocator_alignment Small_alignment Large_alignment =
     min Small_alignment Large_alignment"

text \<open>As in the free list, the children's \<^verbatim>\<open>allocate\<close> come with \<^verbatim>\<open>args...\<close> given.\<close>

definition SegregateAllocator_allocate_Impl ::
  "size_t \<Rightarrow> (size_t \<Rightarrow> 's \<Rightarrow> Blk \<times> 's) \<Rightarrow> (size_t \<Rightarrow> 'l \<Rightarrow> Blk \<times> 'l)
     \<Rightarrow> size_t \<Rightarrow> 's \<times> 'l \<Rightarrow> Blk \<times> ('s \<times> 'l)" where
  "SegregateAllocator_allocate_Impl Threshold Small_allocate Large_allocate n a =
     (if n \<le> Threshold
      then (let (b, s) = Small_allocate n (fst a) in (b, (s, snd a)))
      else (let (b, l) = Large_allocate n (snd a) in (b, (fst a, l))))"

definition SegregateAllocator_allocate ::
  "size_t \<Rightarrow> (size_t \<Rightarrow> 's \<Rightarrow> Blk \<times> 's) \<Rightarrow> (size_t \<Rightarrow> 'l \<Rightarrow> Blk \<times> 'l)
     \<Rightarrow> size_t \<Rightarrow> 's \<times> 'l \<Rightarrow> Blk \<times> ('s \<times> 'l)" where
  "SegregateAllocator_allocate Threshold Small_allocate Large_allocate n a =
     SegregateAllocator_allocate_Impl Threshold Small_allocate Large_allocate n a"

definition SegregateAllocator_allocate_aligned ::
  "size_t \<Rightarrow> size_t \<Rightarrow> size_t
     \<Rightarrow> (size_t \<Rightarrow> size_t \<Rightarrow> 's \<Rightarrow> Blk \<times> 's) \<Rightarrow> (size_t \<Rightarrow> size_t \<Rightarrow> 'l \<Rightarrow> Blk \<times> 'l)
     \<Rightarrow> size_t \<Rightarrow> size_t \<Rightarrow> 's \<times> 'l \<Rightarrow> error + (Blk \<times> ('s \<times> 'l))" where
  "SegregateAllocator_allocate_aligned Threshold Small_alignment Large_alignment
       Small_allocate Large_allocate n alignment_requirement a =
     EXPECTS (alignment_requirement \<ge> SegregateAllocator_alignment Small_alignment Large_alignment
                \<and> IsPow2 alignment_requirement)
       (Inr (SegregateAllocator_allocate_Impl Threshold
               (\<lambda>m. Small_allocate m alignment_requirement)
               (\<lambda>m. Large_allocate m alignment_requirement) n a))"

text \<open>
  \<^verbatim>\<open>owns(Blk b)\<close> and \<^verbatim>\<open>deallocate(Blk b)\<close> test \<^verbatim>\<open>n <= Threshold\<close>, and \<^verbatim>\<open>n\<close> is
  declared neither in these functions nor in the class: the bodies name no field of
  \<^verbatim>\<open>b\<close>. The model takes \<open>n\<close> as one more argument, for whatever the name would be bound to.
\<close>

definition SegregateAllocator_owns ::
  "size_t \<Rightarrow> (Blk \<Rightarrow> 's \<Rightarrow> bool) \<Rightarrow> (Blk \<Rightarrow> 'l \<Rightarrow> bool)
     \<Rightarrow> size_t \<Rightarrow> Blk \<Rightarrow> 's \<times> 'l \<Rightarrow> bool" where
  "SegregateAllocator_owns Threshold Small_owns Large_owns n b a =
     (if n \<le> Threshold then Small_owns b (fst a) else Large_owns b (snd a))"

definition SegregateAllocator_deallocate ::
  "size_t \<Rightarrow> (Blk \<Rightarrow> 's \<Rightarrow> 's) \<Rightarrow> (Blk \<Rightarrow> 'l \<Rightarrow> 'l)
     \<Rightarrow> size_t \<Rightarrow> Blk \<Rightarrow> 's \<times> 'l \<Rightarrow> 's \<times> 'l" where
  "SegregateAllocator_deallocate Threshold Small_deallocate Large_deallocate n b a =
     (if n \<le> Threshold then (Small_deallocate b (fst a), snd a)
      else (fst a, Large_deallocate b (snd a)))"

section \<open>Auxiliary facts\<close>

lemma not_IsPow2_24: "\<not> IsPow2 24"
proof
  assume "IsPow2 24"
  then obtain k :: nat where k: "(24 :: nat) = 2 ^ k"
    by (auto simp add: IsPow2_def)
  have "k < 5"
  proof (rule ccontr)
    assume "\<not> k < 5"
    then have "(2::nat) ^ 5 \<le> 2 ^ k"
      by (intro power_increasing) simp_all
    with k show False
      by simp
  qed
  then have "k \<in> {0, 1, 2, 3, 4}"
    by auto
  with k show False
    by auto
qed

text \<open>The header's \<^verbatim>\<open>static_assert(Math::IsPow2(PlatformMaxAlignment), ...)\<close>.\<close>

lemma IsPow2_alignment: "IsPow2 LightInlineAllocator_alignment"
  unfolding IsPow2_def LightInlineAllocator_alignment_def PlatformMaxAlignment_def
  by (rule bexI [of _ 3]) simp_all

lemma allocateImpl_inRange_length:
  "inRange MinSize MaxSize k \<Longrightarrow>
   length' (fst (FreelistAllocator_allocateImpl Parent_allocate MinSize MaxSize k s)) = k"
  by (simp add: FreelistAllocator_allocateImpl_def split: prod.splits)

lemma deallocateAllImpl_loop_null:
  "deallocateAllImpl_loop Parent_deallocate MaxSize mem nullptr p = Some p"
  by (subst deallocateAllImpl_loop.simps) simp

lemma deallocateAllImpl_loop_step:
  "next \<noteq> nullptr \<Longrightarrow>
   deallocateAllImpl_loop Parent_deallocate MaxSize mem next p =
     deallocateAllImpl_loop Parent_deallocate MaxSize mem (mem next)
       (Parent_deallocate \<lparr>ptr = next, length' = MaxSize\<rparr> p)"
  by (subst deallocateAllImpl_loop.simps) simp

text \<open>
  On a list that ends, the walk returns, having handed every node to the Parent in list
  order with length \<^verbatim>\<open>MaxSize\<close>.
\<close>

lemma deallocateAllImpl_loop_freelist:
  "freelist mem next as \<Longrightarrow>
   deallocateAllImpl_loop Parent_deallocate MaxSize mem next p =
     Some (fold (\<lambda>a. Parent_deallocate \<lparr>ptr = a, length' = MaxSize\<rparr>) as p)"
proof (induction as arbitrary: "next" p)
  case Nil
  then show ?case
    by (simp add: deallocateAllImpl_loop_null)
next
  case (Cons a as)
  then show ?case
    by (simp add: deallocateAllImpl_loop_step)
qed

section \<open>SegregateAllocator: routing\<close>

text \<open>
  Claim C1: for \<^verbatim>\<open>SegregateAllocator<Threshold, Small, Large>\<close>, \<^verbatim>\<open>owns(b)\<close> and
  \<^verbatim>\<open>deallocate(b)\<close> are served by Small iff \<^verbatim>\<open>b.length <= Threshold\<close> and by Large
  otherwise, the child that \<^verbatim>\<open>allocate\<close> chose for that size.

  The code does not do this: the test in both members is on \<^verbatim>\<open>n\<close>, which is not the
  block's length. In \<^verbatim>\<open>SegregateAllocator<16, LightInlineAllocator<16>,
  LightInlineAllocator<1024>>\<close> with the buffers at 4096 and 8192, \<^verbatim>\<open>allocate(100)\<close> is
  served by Large and returns the block at 8192; with \<^verbatim>\<open>n\<close> standing for 0, \<^verbatim>\<open>owns\<close> of
  that block is the answer of Small, which is false, although Large owns the block.
\<close>

theorem SegregateAllocator_owns_not_by_length:
  "fst (SegregateAllocator_allocate 16 (LightInlineAllocator_allocate 16)
          (LightInlineAllocator_allocate 1024) 100 (\<lparr>m_buffer = 4096\<rparr>, \<lparr>m_buffer = 8192\<rparr>))
     = \<lparr>ptr = 8192, length' = 100\<rparr>
   \<and> SegregateAllocator_owns 16 (LightInlineAllocator_owns 16) (LightInlineAllocator_owns 1024)
        0 \<lparr>ptr = 8192, length' = 100\<rparr> (\<lparr>m_buffer = 4096\<rparr>, \<lparr>m_buffer = 8192\<rparr>)
     = LightInlineAllocator_owns 16 \<lparr>ptr = 8192, length' = 100\<rparr> \<lparr>m_buffer = 4096\<rparr>
   \<and> \<not> SegregateAllocator_owns 16 (LightInlineAllocator_owns 16) (LightInlineAllocator_owns 1024)
        0 \<lparr>ptr = 8192, length' = 100\<rparr> (\<lparr>m_buffer = 4096\<rparr>, \<lparr>m_buffer = 8192\<rparr>)
   \<and> LightInlineAllocator_owns 1024 \<lparr>ptr = 8192, length' = 100\<rparr> \<lparr>m_buffer = 8192\<rparr>"
  by (simp add: SegregateAllocator_allocate_def SegregateAllocator_allocate_Impl_def
        SegregateAllocator_owns_def LightInlineAllocator_allocate_def LightInlineAllocator_owns_def
        Blk_begin_def Blk_end_def)

text \<open>
  What the two members do decide on: the child depends on \<open>n\<close> alone, so blocks of
  every length go the same way. \<^verbatim>\<open>allocate\<close> decides on the requested size.
\<close>

lemma SegregateAllocator_deallocate_any_length:
  "SegregateAllocator_deallocate Threshold Small_deallocate Large_deallocate n b (s, l)
     = (if n \<le> Threshold then (Small_deallocate b s, l) else (s, Large_deallocate b l))"
  by (simp add: SegregateAllocator_deallocate_def)

lemma SegregateAllocator_allocate_by_size:
  "SegregateAllocator_allocate Threshold Small_allocate Large_allocate n (s, l)
     = (if n \<le> Threshold then (fst (Small_allocate n s), (snd (Small_allocate n s), l))
        else (fst (Large_allocate n l), (s, snd (Large_allocate n l))))"
  by (simp add: SegregateAllocator_allocate_def SegregateAllocator_allocate_Impl_def
        split: prod.splits)

section \<open>FallbackAllocator\<close>

text \<open>
  Claim C2: for \<^verbatim>\<open>FallbackAllocator<Primary, Fallback>\<close> and every size \<open>n\<close>,
  \<^verbatim>\<open>allocate(n)\<close> first calls \<^verbatim>\<open>Primary.allocate(n)\<close>; the Fallback's \<^verbatim>\<open>allocate(n)\<close>
  is called if and only if the Primary's block has a null pointer; a non-null block of the
  Primary is returned as it is, and the Fallback is not touched.

  With \<open>blk\<close> and \<open>p'\<close> what the Primary returns and leaves behind: for a non-null
  \<open>blk\<close> the result is \<open>blk\<close> and the Fallback's state \<open>f\<close> is the one before the call,
  whatever the Fallback is; for a null \<open>blk\<close> the result and the Fallback's new state are
  those of one call of the Fallback's \<^verbatim>\<open>allocate(n)\<close> on \<open>f\<close>.
\<close>

theorem FallbackAllocator_allocate_precedence:
  assumes "P_allocate n p = (blk, p')"
  shows "(ptr blk \<noteq> nullptr \<longrightarrow>
            FallbackAllocator_allocate P_allocate F_allocate n (p, f) = (blk, (p', f)))
       \<and> (ptr blk = nullptr \<longrightarrow>
            FallbackAllocator_allocate P_allocate F_allocate n (p, f) =
              (fst (F_allocate n f), (p', snd (F_allocate n f))))"
  using assms by (simp add: FallbackAllocator_allocate_def split: prod.splits)

text \<open>
  \<^verbatim>\<open>FallbackAllocator<LightInlineAllocator<16>, LightInlineAllocator<64>>\<close>: 8 bytes come
  from the Primary's buffer, 32 bytes from the Fallback's.
\<close>

theorem FallbackAllocator_allocate_precedence_witness:
  "FallbackAllocator_allocate (LightInlineAllocator_allocate 16) (LightInlineAllocator_allocate 64)
      8 (\<lparr>m_buffer = 4096\<rparr>, \<lparr>m_buffer = 8192\<rparr>)
     = (\<lparr>ptr = 4096, length' = 8\<rparr>, (\<lparr>m_buffer = 4096\<rparr>, \<lparr>m_buffer = 8192\<rparr>))
   \<and> FallbackAllocator_allocate (LightInlineAllocator_allocate 16) (LightInlineAllocator_allocate 64)
      32 (\<lparr>m_buffer = 4096\<rparr>, \<lparr>m_buffer = 8192\<rparr>)
     = (\<lparr>ptr = 8192, length' = 32\<rparr>, (\<lparr>m_buffer = 4096\<rparr>, \<lparr>m_buffer = 8192\<rparr>))"
  using FallbackAllocator_allocate_precedence
      [where P_allocate = "LightInlineAllocator_allocate 16" and n = 8
         and p = "\<lparr>m_buffer = 4096\<rparr>" and blk = "\<lparr>ptr = 4096, length' = 8\<rparr>"
         and p' = "\<lparr>m_buffer = 4096\<rparr>" and F_allocate = "LightInlineAllocator_allocate 64"
         and f = "\<lparr>m_buffer = 8192\<rparr>"]
    FallbackAllocator_allocate_precedence
      [where P_allocate = "LightInlineAllocator_allocate 16" and n = 32
         and p = "\<lparr>m_buffer = 4096\<rparr>" and blk = "\<lparr>ptr = nullptr, length' = 0\<rparr>"
         and p' = "\<lparr>m_buffer = 4096\<rparr>" and F_allocate = "LightInlineAllocator_allocate 64"
         and f = "\<lparr>m_buffer = 8192\<rparr>"]
  by (simp add: LightInlineAllocator_allocate_def)

text \<open>
  Claim C3: for \<^verbatim>\<open>FallbackAllocator<Primary, Fallback>\<close> and every block \<open>b\<close>,
  \<^verbatim>\<open>deallocate(b)\<close> calls \<^verbatim>\<open>Primary.deallocate(b)\<close> if \<^verbatim>\<open>Primary.owns(b)\<close> and
  \<^verbatim>\<open>Fallback.deallocate(b)\<close> otherwise, leaving the other child as it was; and where the
  Fallback has \<^verbatim>\<open>owns\<close>, \<^verbatim>\<open>owns(b)\<close> is \<^verbatim>\<open>Primary.owns(b) || Fallback.owns(b)\<close>.
\<close>

theorem FallbackAllocator_deallocate_owns:
  "(P_owns b p \<longrightarrow>
      FallbackAllocator_deallocate P_owns P_deallocate F_deallocate b (p, f) = (P_deallocate b p, f))
   \<and> (\<not> P_owns b p \<longrightarrow>
      FallbackAllocator_deallocate P_owns P_deallocate F_deallocate b (p, f) = (p, F_deallocate b f))
   \<and> FallbackAllocator_owns P_owns F_owns b (p, f) = (P_owns b p \<or> F_owns b f)"
proof (cases "P_owns b p")
  case True
  then have "FallbackAllocator_deallocate P_owns P_deallocate F_deallocate b (p, f)
               = (P_deallocate b p, f)"
    by (simp add: FallbackAllocator_deallocate_def)
  with True show ?thesis
    by (simp add: FallbackAllocator_owns_def)
next
  case False
  then have "FallbackAllocator_deallocate P_owns P_deallocate F_deallocate b (p, f)
               = (p, F_deallocate b f)"
    by (simp add: FallbackAllocator_deallocate_def)
  with False show ?thesis
    by (simp add: FallbackAllocator_owns_def)
qed

text \<open>
  The same two buffers: the block at 4096 is the Primary's, the block at 8192 is not, and
  the combinator owns it through the Fallback.
\<close>

theorem FallbackAllocator_deallocate_owns_witness:
  "LightInlineAllocator_owns 16 \<lparr>ptr = 4096, length' = 8\<rparr> \<lparr>m_buffer = 4096\<rparr>
   \<and> FallbackAllocator_deallocate (LightInlineAllocator_owns 16) LightInlineAllocator_deallocate
        LightInlineAllocator_deallocate \<lparr>ptr = 4096, length' = 8\<rparr>
        (\<lparr>m_buffer = 4096\<rparr>, \<lparr>m_buffer = 8192\<rparr>)
      = (LightInlineAllocator_deallocate \<lparr>ptr = 4096, length' = 8\<rparr> \<lparr>m_buffer = 4096\<rparr>,
         \<lparr>m_buffer = 8192\<rparr>)
   \<and> \<not> LightInlineAllocator_owns 16 \<lparr>ptr = 8192, length' = 32\<rparr> \<lparr>m_buffer = 4096\<rparr>
   \<and> FallbackAllocator_deallocate (LightInlineAllocator_owns 16) LightInlineAllocator_deallocate
        LightInlineAllocator_deallocate \<lparr>ptr = 8192, length' = 32\<rparr>
        (\<lparr>m_buffer = 4096\<rparr>, \<lparr>m_buffer = 8192\<rparr>)
      = (\<lparr>m_buffer = 4096\<rparr>,
         LightInlineAllocator_deallocate \<lparr>ptr = 8192, length' = 32\<rparr> \<lparr>m_buffer = 8192\<rparr>)
   \<and> FallbackAllocator_owns (LightInlineAllocator_owns 16) (LightInlineAllocator_owns 64)
        \<lparr>ptr = 8192, length' = 32\<rparr> (\<lparr>m_buffer = 4096\<rparr>, \<lparr>m_buffer = 8192\<rparr>)"
proof -
  have mine: "LightInlineAllocator_owns 16 \<lparr>ptr = 4096, length' = 8\<rparr> \<lparr>m_buffer = 4096\<rparr>"
    and other: "\<not> LightInlineAllocator_owns 16 \<lparr>ptr = 8192, length' = 32\<rparr> \<lparr>m_buffer = 4096\<rparr>"
    and fallback: "LightInlineAllocator_owns 64 \<lparr>ptr = 8192, length' = 32\<rparr> \<lparr>m_buffer = 8192\<rparr>"
    by (simp_all add: LightInlineAllocator_owns_def Blk_begin_def Blk_end_def)
  from mine other fallback
    FallbackAllocator_deallocate_owns
      [of "LightInlineAllocator_owns 16" "\<lparr>ptr = 4096, length' = 8\<rparr>" "\<lparr>m_buffer = 4096\<rparr>"
          LightInlineAllocator_deallocate LightInlineAllocator_deallocate "\<lparr>m_buffer = 8192\<rparr>"
          "LightInlineAllocator_owns 64"]
    FallbackAllocator_deallocate_owns
      [of "LightInlineAllocator_owns 16" "\<lparr>ptr = 8192, length' = 32\<rparr>" "\<lparr>m_buffer = 4096\<rparr>"
          LightInlineAllocator_deallocate LightInlineAllocator_deallocate "\<lparr>m_buffer = 8192\<rparr>"
          "LightInlineAllocator_owns 64"]
  show ?thesis
    by simp
qed

section \<open>AffixAllocator: the round trip\<close>




text \<open>The other branch: a null block of the Parent comes back unchanged, and goes back as
  the null block of length 0.\<close>

lemma AffixAllocator_allocate_null:
  assumes "Parent_allocate (totalAllocationSize Prefix_StateSize SuffixType n) p = (result, p')"
    and "ptr result = nullptr"
  shows "AffixAllocator_allocate Parent_allocate Prefix_StateSize SuffixType n p = (result, p')"
    and "actualAllocation Prefix_StateSize SuffixType result = \<lparr>ptr = nullptr, length' = 0\<rparr>"
  using assms by (simp_all add: AffixAllocator_allocate_def actualAllocation_def)

text \<open>
  The wrapped pointer: a Parent block that starts exactly the size of the prefix below
  the end of the address space makes \<^verbatim>\<open>allocate\<close> return a null pointer with length \<open>n\<close>.
\<close>

lemma AffixAllocator_allocate_wrapped:
  assumes "Parent_allocate (totalAllocationSize Prefix_StateSize SuffixType n) p = (result, p')"
    and "ptr result \<noteq> nullptr" and "ptr result + Prefix_StateSize = nullptr"
  shows "AffixAllocator_allocate Parent_allocate Prefix_StateSize SuffixType n p
           = (\<lparr>ptr = nullptr, length' = n\<rparr>, p')"
  using assms by (simp add: AffixAllocator_allocate_def)

section \<open>FreelistAllocator\<close>

text \<open>
  Claim C5: for a \<^verbatim>\<open>FreelistAllocator\<close> of capacity at least 1 whose free list can
  accept a node, and every size \<open>k\<close> in range: \<^verbatim>\<open>allocate(k)\<close> returning \<open>b\<close>, then
  \<^verbatim>\<open>deallocate(b)\<close>, then \<^verbatim>\<open>allocate(k)\<close> yields a block whose pointer is \<open>b\<close>'s.

  The code breaks this where the Parent has no memory. \<^verbatim>\<open>allocateImpl\<close> then returns the
  null pointer with the length \<open>k\<close> (claim C6), \<open>k\<close> is in range, and \<^verbatim>\<open>deallocate(b)\<close>
  makes the null pointer the head of the list and writes the old head through it. A fresh
  \<^verbatim>\<open>FreelistAllocator<LightInlineAllocator<16>, 32>\<close> does so for \<open>k = 32\<close>: the run ends
  in \<^verbatim>\<open>deallocate\<close>, and there is no second allocation.
\<close>

theorem FreelistAllocator_reuse_null_write:
  "inRange 32 32 32
   \<and> fst (FreelistAllocator_allocate (LightInlineAllocator_allocate 16) 32 32 32
            (FreelistAllocator_new \<lparr>m_buffer = 4096\<rparr> (\<lambda>_. nullptr)))
       = \<lparr>ptr = nullptr, length' = 32\<rparr>
   \<and> FreelistAllocator_deallocate LightInlineAllocator_deallocate 32 32 Allocator_unbounded
        (fst (FreelistAllocator_allocate (LightInlineAllocator_allocate 16) 32 32 32
               (FreelistAllocator_new \<lparr>m_buffer = 4096\<rparr> (\<lambda>_. nullptr))))
        (snd (FreelistAllocator_allocate (LightInlineAllocator_allocate 16) 32 32 32
               (FreelistAllocator_new \<lparr>m_buffer = 4096\<rparr> (\<lambda>_. nullptr))))
       = Inl NullDereference"
  by (simp add: inRange_def FreelistAllocator_new_def LightInlineAllocator_allocate_def
        FreelistAllocator_allocate_def FreelistAllocator_allocateImpl_def
        FreelistAllocator_deallocate_def)

text \<open>Caching a null block in general.\<close>

lemma FreelistAllocator_deallocate_null:
  assumes "inRange MinSize MaxSize (length' b)"
    and "MaxNodes = Allocator_unbounded \<or> m_nNodesCount s \<noteq> MaxNodes"
    and "ptr b = nullptr"
  shows "FreelistAllocator_deallocate Parent_deallocate MinSize MaxSize MaxNodes b s
           = Inl NullDereference"
  using assms by (simp add: FreelistAllocator_deallocate_def)

text \<open>
  With the null block of length 0 that the claim C6 asks for, the same run goes through:
  a length of 0 is out of the range, the block goes to the Parent, and the second
  allocation returns the null pointer again.
\<close>

lemma FreelistAllocator_reuse_with_null_block:
  "FreelistAllocator_deallocate LightInlineAllocator_deallocate 32 32 Allocator_unbounded
        \<lparr>ptr = nullptr, length' = 0\<rparr> (FreelistAllocator_new \<lparr>m_buffer = 4096\<rparr> (\<lambda>_. nullptr))
      = Inr (FreelistAllocator_new \<lparr>m_buffer = 4096\<rparr> (\<lambda>_. nullptr))
   \<and> ptr (fst (FreelistAllocator_allocate (LightInlineAllocator_allocate 16) 32 32 32
                 (FreelistAllocator_new \<lparr>m_buffer = 4096\<rparr> (\<lambda>_. nullptr)))) = nullptr"
  by (simp add: inRange_def FreelistAllocator_new_def LightInlineAllocator_allocate_def
        LightInlineAllocator_deallocate_def FreelistAllocator_allocate_def
        FreelistAllocator_allocateImpl_def FreelistAllocator_deallocate_def)

text \<open>
  The code breaks the claim a second way, through the counter that \<^verbatim>\<open>deallocateAll\<close>
  leaves behind (claim C10). A bounded list whose counter stood at \<^verbatim>\<open>MaxNodes\<close> is
  empty after \<^verbatim>\<open>deallocateAll\<close>, but \<^verbatim>\<open>deallocate\<close> still finds it full: the block of the
  next \<^verbatim>\<open>allocate(k)\<close> goes to the Parent, the list stays empty, and the allocation after
  it is whatever the Parent returns for \<^verbatim>\<open>MaxSize\<close> bytes then.
\<close>

lemma FreelistAllocator_no_reuse_after_deallocateAll:
  assumes bounded: "MaxNodes \<noteq> Allocator_unbounded"
    and full: "m_nNodesCount s = MaxNodes"
    and range: "inRange MinSize MaxSize k"
    and first: "FreelistAllocator_allocate Parent_allocate MinSize MaxSize k
                  (FreelistAllocator_deallocateAllImpl Parent_deallocateAll s) = (b, s1)"
  shows "FreelistAllocator_deallocate Parent_deallocate MinSize MaxSize MaxNodes b s1
           = Inr (s1\<lparr>Parent := Parent_deallocate b (Parent s1)\<rparr>)"
    and "m_pFreelistRoot s1 = nullptr"
    and "fst (FreelistAllocator_allocate Parent_allocate MinSize MaxSize k
               (s1\<lparr>Parent := Parent_deallocate b (Parent s1)\<rparr>))
           = \<lparr>ptr = ptr (fst (Parent_allocate MaxSize (Parent_deallocate b (Parent s1)))),
              length' = k\<rparr>"
proof -
  from range first have s1: "m_pFreelistRoot s1 = nullptr" "m_nNodesCount s1 = m_nNodesCount s"
    by (auto simp add: FreelistAllocator_allocate_def FreelistAllocator_allocateImpl_def
          FreelistAllocator_deallocateAllImpl_def split: prod.splits)
  then show "m_pFreelistRoot s1 = nullptr"
    by simp
  from s1 bounded full
  show "FreelistAllocator_deallocate Parent_deallocate MinSize MaxSize MaxNodes b s1
           = Inr (s1\<lparr>Parent := Parent_deallocate b (Parent s1)\<rparr>)"
    by (simp add: FreelistAllocator_deallocate_def)
  from s1 range
  show "fst (FreelistAllocator_allocate Parent_allocate MinSize MaxSize k
               (s1\<lparr>Parent := Parent_deallocate b (Parent s1)\<rparr>))
           = \<lparr>ptr = ptr (fst (Parent_allocate MaxSize (Parent_deallocate b (Parent s1)))),
              length' = k\<rparr>"
    by (simp add: FreelistAllocator_allocate_def FreelistAllocator_allocateImpl_def
          split: prod.splits)
qed

text \<open>
  Where \<open>b\<close> is not null and \<^verbatim>\<open>deallocate\<close> finds room (the list is unbounded, or the
  counter differs from \<^verbatim>\<open>MaxNodes\<close>), the block is cached and handed out again.
\<close>

lemma FreelistAllocator_reuse:
  assumes range: "inRange MinSize MaxSize k"
    and first: "FreelistAllocator_allocate Parent_allocate MinSize MaxSize k s = (b, s1)"
    and nonnull: "ptr b \<noteq> nullptr"
    and room: "MaxNodes = Allocator_unbounded \<or> m_nNodesCount s1 \<noteq> MaxNodes"
  shows "\<exists>s2. FreelistAllocator_deallocate Parent_deallocate MinSize MaxSize MaxNodes b s1 = Inr s2
              \<and> ptr (fst (FreelistAllocator_allocate Parent_allocate MinSize MaxSize k s2)) = ptr b"
proof -
  let ?s2 = "s1\<lparr>m_pFreelistRoot := ptr b,
                 Node_next := (Node_next s1)(ptr b := m_pFreelistRoot s1),
                 m_nNodesCount := m_nNodesCount s1 + 1\<rparr>"
  from range first have len: "length' b = k"
    using allocateImpl_inRange_length [of MinSize MaxSize k Parent_allocate s]
    by (simp add: FreelistAllocator_allocate_def)
  with nonnull range room
  have "FreelistAllocator_deallocate Parent_deallocate MinSize MaxSize MaxNodes b s1 = Inr ?s2"
    by (simp add: FreelistAllocator_deallocate_def)
  moreover from nonnull range
  have "ptr (fst (FreelistAllocator_allocate Parent_allocate MinSize MaxSize k ?s2)) = ptr b"
    by (simp add: FreelistAllocator_allocate_def FreelistAllocator_allocateImpl_def)
  ultimately show ?thesis
    by blast
qed

text \<open>
  Claim C6: when the requested size is in range, the free list is empty and the Parent's
  allocation of \<^verbatim>\<open>MaxSize\<close> bytes fails, \<^verbatim>\<open>allocate(n)\<close> returns a null block: a null
  pointer and length 0.

  The code returns \<^verbatim>\<open>{ b.ptr, n }\<close> without looking at \<^verbatim>\<open>b.ptr\<close>. A fresh
  \<^verbatim>\<open>FreelistAllocator<LightInlineAllocator<16>, 32, 32>\<close> asked for 32 bytes gets the
  null block of length 0 from its Parent and returns a null pointer with length 32.
\<close>

theorem FreelistAllocator_failed_allocate_length:
  "inRange 32 32 32
   \<and> m_pFreelistRoot (FreelistAllocator_new \<lparr>m_buffer = 4096\<rparr> (\<lambda>_. nullptr)) = nullptr
   \<and> fst (LightInlineAllocator_allocate 16 32 \<lparr>m_buffer = 4096\<rparr>) = \<lparr>ptr = nullptr, length' = 0\<rparr>
   \<and> fst (FreelistAllocator_allocate (LightInlineAllocator_allocate 16) 32 32 32
            (FreelistAllocator_new \<lparr>m_buffer = 4096\<rparr> (\<lambda>_. nullptr)))
       = \<lparr>ptr = nullptr, length' = 32\<rparr>"
  by (simp add: inRange_def FreelistAllocator_new_def LightInlineAllocator_allocate_def
        FreelistAllocator_allocate_def FreelistAllocator_allocateImpl_def)

text \<open>The same for every Parent: the length of the failed allocation is the request.\<close>

lemma FreelistAllocator_failed_allocate_general:
  assumes "inRange MinSize MaxSize n" and "m_pFreelistRoot s = nullptr"
    and "ptr (fst (Parent_allocate MaxSize (Parent s))) = nullptr"
  shows "fst (FreelistAllocator_allocate Parent_allocate MinSize MaxSize n s)
           = \<lparr>ptr = nullptr, length' = n\<rparr>"
  using assms
  by (cases "Parent_allocate MaxSize (Parent s)")
     (simp add: FreelistAllocator_allocate_def FreelistAllocator_allocateImpl_def)

text \<open>
  Claim C7: a size \<open>n\<close> is in range iff, when \<^verbatim>\<open>MinSize\<close> equals \<^verbatim>\<open>MaxSize\<close>, \<open>n\<close> is
  that size, and otherwise \<^verbatim>\<open>MinSize <= n <= MaxSize\<close>, where a \<^verbatim>\<open>MinSize\<close> of 0 leaves
  only the upper bound; allocations and deallocations out of range are forwarded to the
  Parent, with the size and the block they were given.
\<close>

theorem inRange_forwarding:
  "(inRange MinSize MaxSize n \<longleftrightarrow>
      (if MinSize = MaxSize then n = MinSize else MinSize \<le> n \<and> n \<le> MaxSize))
   \<and> (MinSize = 0 \<and> MaxSize \<noteq> 0 \<longrightarrow> (inRange MinSize MaxSize n \<longleftrightarrow> n \<le> MaxSize))
   \<and> (\<not> inRange MinSize MaxSize n \<longrightarrow>
        FreelistAllocator_allocate Parent_allocate MinSize MaxSize n s =
          (fst (Parent_allocate n (Parent s)), s\<lparr>Parent := snd (Parent_allocate n (Parent s))\<rparr>))
   \<and> (\<not> inRange MinSize MaxSize (length' b) \<longrightarrow>
        FreelistAllocator_deallocate Parent_deallocate MinSize MaxSize MaxNodes b s =
          Inr (s\<lparr>Parent := Parent_deallocate b (Parent s)\<rparr>))"
  by (auto simp add: inRange_def FreelistAllocator_allocate_def FreelistAllocator_allocateImpl_def
        FreelistAllocator_deallocate_def split: prod.splits)

text \<open>
  \<^verbatim>\<open>FreelistAllocator<LightInlineAllocator<128>, 0, 32, 1>\<close>: 64 bytes are out of range,
  and both calls go to the Parent.
\<close>

theorem inRange_forwarding_witness:
  "\<not> inRange 0 32 64
   \<and> inRange 0 32 16
   \<and> FreelistAllocator_allocate (LightInlineAllocator_allocate 128) 0 32 64
        (FreelistAllocator_new \<lparr>m_buffer = 4096\<rparr> (\<lambda>_. nullptr))
       = (\<lparr>ptr = 4096, length' = 64\<rparr>, FreelistAllocator_new \<lparr>m_buffer = 4096\<rparr> (\<lambda>_. nullptr))
   \<and> FreelistAllocator_deallocate LightInlineAllocator_deallocate 0 32 1
        \<lparr>ptr = 4096, length' = 64\<rparr> (FreelistAllocator_new \<lparr>m_buffer = 4096\<rparr> (\<lambda>_. nullptr))
       = Inr (FreelistAllocator_new \<lparr>m_buffer = 4096\<rparr> (\<lambda>_. nullptr))"
  using inRange_forwarding
      [of 0 32 64 "LightInlineAllocator_allocate 128"
          "FreelistAllocator_new \<lparr>m_buffer = 4096\<rparr> (\<lambda>_. nullptr)"
          "\<lparr>ptr = 4096, length' = 64\<rparr>" LightInlineAllocator_deallocate 1]
    inRange_forwarding
      [of 0 32 16 "LightInlineAllocator_allocate 128"
          "FreelistAllocator_new \<lparr>m_buffer = 4096\<rparr> (\<lambda>_. nullptr)"
          "\<lparr>ptr = 4096, length' = 64\<rparr>" LightInlineAllocator_deallocate 1]
  by (simp add: LightInlineAllocator_allocate_def LightInlineAllocator_deallocate_def
        FreelistAllocator_new_def)

section \<open>Aligned allocation\<close>

text \<open>
  Claim C8: every aligned \<^verbatim>\<open>allocate(n, a)\<close>, in particular that of
  \<^verbatim>\<open>LightInlineAllocator\<close> and that of \<^verbatim>\<open>SegregateAllocator\<close>, rejects by a fatal
  assertion an \<open>a\<close> that is not a power of two or is below the allocator's \<^verbatim>\<open>alignment\<close>.

  \<^verbatim>\<open>LightInlineAllocator\<close> asserts \<^verbatim>\<open>Math::IsPow2(alignment) && a >= alignment\<close>: the
  power-of-two test is on its own constant, not on \<open>a\<close>. With the buffer of
  \<^verbatim>\<open>LightInlineAllocator<64>\<close> at 4096, \<^verbatim>\<open>allocate(8, 24)\<close> passes the assertion and
  returns the block at 4104, though 24 is not a power of two.
\<close>

theorem LightInlineAllocator_accepts_non_power_of_two:
  "\<not> IsPow2 24
   \<and> LightInlineAllocator_allocate_aligned 64 8 24 \<lparr>m_buffer = 4096\<rparr>
       = Inr (\<lparr>ptr = 4104, length' = 8\<rparr>, \<lparr>m_buffer = 4096\<rparr>)"
  using IsPow2_alignment not_IsPow2_24
  by (simp add: LightInlineAllocator_allocate_aligned_def EXPECTS_def
        LightInlineAllocator_alignment_def PlatformMaxAlignment_def RoundUpToMultipleOf_def
        Blk_end_def)

text \<open>
  What the two assertions reject: \<^verbatim>\<open>LightInlineAllocator\<close> only an \<open>a\<close> below its
  alignment, \<^verbatim>\<open>SegregateAllocator\<close> what the claim says.
\<close>

lemma LightInlineAllocator_allocate_aligned_rejects:
  "LightInlineAllocator_allocate_aligned N n a s = Inl e \<longleftrightarrow>
     e = AssertionFailure \<and> a < LightInlineAllocator_alignment"
  using IsPow2_alignment
  by (auto simp add: LightInlineAllocator_allocate_aligned_def EXPECTS_def Let_def)

lemma SegregateAllocator_allocate_aligned_rejects:
  "SegregateAllocator_allocate_aligned Threshold Small_alignment Large_alignment
       Small_allocate Large_allocate n a s = Inl e \<longleftrightarrow>
     e = AssertionFailure \<and>
     (a < SegregateAllocator_alignment Small_alignment Large_alignment \<or> \<not> IsPow2 a)"
  by (auto simp add: SegregateAllocator_allocate_aligned_def EXPECTS_def)

section \<open>LightInlineAllocator: no bookkeeping\<close>

text \<open>
  As stated, claim C9 has \<^verbatim>\<open>owns(b)\<close> true iff the range of \<open>b\<close> lies entirely within
  the buffer. \<^verbatim>\<open>owns\<close> compares \<^verbatim>\<open>b.end()\<close>, which is \<^verbatim>\<open>ptr + length\<close> on a 64-bit
  pointer and wraps around. For \<^verbatim>\<open>LightInlineAllocator<64>\<close> at 4096, the block at 4100
  of length \<open>2 ^ 64 - 1\<close> has its end at 4099: \<^verbatim>\<open>owns\<close> is true, and the block's bytes
  run far past the last byte of the buffer, at 4159.
\<close>

theorem LightInlineAllocator_owns_wrapped_counterexample:
  "LightInlineAllocator_owns 64 \<lparr>ptr = 4100, length' = 18446744073709551615\<rparr>
      \<lparr>m_buffer = 4096\<rparr>
   \<and> Blk_end \<lparr>ptr = 4100, length' = 18446744073709551615\<rparr> = 4099
   \<and> unat (4096 :: pointer) + unat (64 :: size_t)
       < unat (4100 :: pointer) + unat (18446744073709551615 :: size_t)"
  by (simp add: LightInlineAllocator_owns_def Blk_begin_def Blk_end_def)

text \<open>
  Claim C9, amended: for \<^verbatim>\<open>LightInlineAllocator<N>\<close> and every size \<open>n\<close>,
  \<^verbatim>\<open>allocate(n)\<close> returns the block at the start of the buffer with length \<open>n\<close> when
  \<^verbatim>\<open>n <= N\<close> and the null block otherwise, whatever was allocated before: the allocator
  is left as it was, so two successive allocations that fit return the same pointer.
  \<^verbatim>\<open>deallocate\<close> does nothing. For a buffer that lies within the address space and a
  block \<open>b\<close> whose end \<^verbatim>\<open>b.ptr + b.length\<close> does not wrap around it, \<^verbatim>\<open>owns(b)\<close> holds iff
  the range of \<open>b\<close> lies within the buffer: \<open>b\<close> does not begin before the buffer and
  does not end after it; for such a block that is not empty, iff each of its bytes is a
  byte of the buffer. The ranges are those of the addresses themselves, as numbers.
\<close>

theorem LightInlineAllocator_contract:
  "LightInlineAllocator_allocate N n a =
     (if n \<le> N then \<lparr>ptr = m_buffer a, length' = n\<rparr> else \<lparr>ptr = nullptr, length' = 0\<rparr>, a)
   \<and> (n \<le> N \<and> n' \<le> N \<longrightarrow>
        ptr (fst (LightInlineAllocator_allocate N n' (snd (LightInlineAllocator_allocate N n a))))
          = ptr (fst (LightInlineAllocator_allocate N n a)))
   \<and> LightInlineAllocator_deallocate b a = a
   \<and> (unat (m_buffer a) + unat N < 2 ^ 64 \<and> unat (ptr b) + unat (length' b) < 2 ^ 64 \<longrightarrow>
        (LightInlineAllocator_owns N b a \<longleftrightarrow>
           unat (m_buffer a) \<le> unat (ptr b)
           \<and> unat (ptr b) + unat (length' b) \<le> unat (m_buffer a) + unat N))
   \<and> (unat (m_buffer a) + unat N < 2 ^ 64 \<and> unat (ptr b) + unat (length' b) < 2 ^ 64
        \<and> length' b \<noteq> 0 \<longrightarrow>
        (LightInlineAllocator_owns N b a \<longleftrightarrow>
           {unat (ptr b) ..< unat (ptr b) + unat (length' b)}
             \<subseteq> {unat (m_buffer a) ..< unat (m_buffer a) + unat N}))"
proof (intro conjI impI)
  show "LightInlineAllocator_allocate N n a =
     (if n \<le> N then \<lparr>ptr = m_buffer a, length' = n\<rparr> else \<lparr>ptr = nullptr, length' = 0\<rparr>, a)"
    by (simp add: LightInlineAllocator_allocate_def)
  show "ptr (fst (LightInlineAllocator_allocate N n' (snd (LightInlineAllocator_allocate N n a))))
          = ptr (fst (LightInlineAllocator_allocate N n a))" if "n \<le> N \<and> n' \<le> N"
    using that by (simp add: LightInlineAllocator_allocate_def)
  show "LightInlineAllocator_deallocate b a = a"
    by (simp add: LightInlineAllocator_deallocate_def)
  have owns: "LightInlineAllocator_owns N b a \<longleftrightarrow>
           unat (m_buffer a) \<le> unat (ptr b)
           \<and> unat (ptr b) + unat (length' b) \<le> unat (m_buffer a) + unat N"
    if "unat (m_buffer a) + unat N < 2 ^ 64" and "unat (ptr b) + unat (length' b) < 2 ^ 64"
  proof -
    from that have "unat (m_buffer a + N) = unat (m_buffer a) + unat N"
      and "unat (ptr b + length' b) = unat (ptr b) + unat (length' b)"
      by (simp_all add: unat_add_lem [THEN iffD1])
    then show ?thesis
      by (simp add: LightInlineAllocator_owns_def Blk_begin_def Blk_end_def word_le_nat_alt)
  qed
  show "LightInlineAllocator_owns N b a \<longleftrightarrow>
           unat (m_buffer a) \<le> unat (ptr b)
           \<and> unat (ptr b) + unat (length' b) \<le> unat (m_buffer a) + unat N"
    if "unat (m_buffer a) + unat N < 2 ^ 64 \<and> unat (ptr b) + unat (length' b) < 2 ^ 64"
    using that owns by blast
  show "LightInlineAllocator_owns N b a \<longleftrightarrow>
           {unat (ptr b) ..< unat (ptr b) + unat (length' b)}
             \<subseteq> {unat (m_buffer a) ..< unat (m_buffer a) + unat N}"
    if "unat (m_buffer a) + unat N < 2 ^ 64 \<and> unat (ptr b) + unat (length' b) < 2 ^ 64
        \<and> length' b \<noteq> 0"
  proof -
    from that have "0 < unat (length' b)"
      by (simp add: unat_gt_0)
    with that owns show ?thesis
      by simp
  qed
qed

text \<open>
  \<^verbatim>\<open>LightInlineAllocator<64>\<close> at 4096: 16 bytes and then 32 bytes both start at 4096;
  the 10 bytes from 4100 are the allocator's, the 10 bytes from 4155 are not.
\<close>

theorem LightInlineAllocator_contract_witness:
  "(16 :: size_t) \<le> 64 \<and> (32 :: size_t) \<le> 64
   \<and> ptr (fst (LightInlineAllocator_allocate 64 32
                 (snd (LightInlineAllocator_allocate 64 16 \<lparr>m_buffer = 4096\<rparr>)))) = 4096
   \<and> ptr (fst (LightInlineAllocator_allocate 64 16 \<lparr>m_buffer = 4096\<rparr>)) = 4096
   \<and> unat (4096 :: pointer) + unat (64 :: size_t) < 2 ^ 64
   \<and> unat (4100 :: pointer) + unat (10 :: size_t) < 2 ^ 64
   \<and> LightInlineAllocator_owns 64 \<lparr>ptr = 4100, length' = 10\<rparr> \<lparr>m_buffer = 4096\<rparr>
   \<and> unat (4155 :: pointer) + unat (10 :: size_t) < 2 ^ 64
   \<and> \<not> LightInlineAllocator_owns 64 \<lparr>ptr = 4155, length' = 10\<rparr> \<lparr>m_buffer = 4096\<rparr>"
  using LightInlineAllocator_contract
      [of 64 16 "\<lparr>m_buffer = 4096\<rparr>" 32 "\<lparr>ptr = 4100, length' = 10\<rparr>"]
    LightInlineAllocator_contract
      [of 64 16 "\<lparr>m_buffer = 4096\<rparr>" 32 "\<lparr>ptr = 4155, length' = 10\<rparr>"]
  by (elim conjE) simp

section \<open>FreelistAllocator: the node counter\<close>

text \<open>
  Claim C10: from a freshly constructed \<^verbatim>\<open>FreelistAllocator\<close>, after every sequence of
  \<^verbatim>\<open>allocate\<close>, \<^verbatim>\<open>deallocate\<close> and \<^verbatim>\<open>deallocateAll\<close>, \<^verbatim>\<open>m_nNodesCount\<close> is the number
  of nodes reachable from \<^verbatim>\<open>m_pFreelistRoot\<close>, and so 0 when the head is null.

  Neither overload of \<^verbatim>\<open>deallocateAllImpl\<close> writes the counter. A fresh
  \<^verbatim>\<open>FreelistAllocator<LightInlineAllocator<64>, 32>\<close> (both sizes 32, unbounded):
  \<^verbatim>\<open>allocate(32)\<close> returns the block at 4096; \<^verbatim>\<open>deallocate\<close> of it caches the one node
  and counts 1; \<^verbatim>\<open>deallocateAll()\<close> walks the list and clears the head. The list is then
  empty and the counter is still 1.
\<close>

theorem FreelistAllocator_stale_count:
  "(case FreelistAllocator_allocate (LightInlineAllocator_allocate 64) 32 32 32
           (FreelistAllocator_new \<lparr>m_buffer = 4096\<rparr> (\<lambda>_. nullptr)) of
      (b, s1) \<Rightarrow>
        (case FreelistAllocator_deallocate LightInlineAllocator_deallocate 32 32
                Allocator_unbounded b s1 of
           Inl e \<Rightarrow> False
         | Inr s2 \<Rightarrow>
             (case FreelistAllocator_deallocateAllImpl_unbounded
                     LightInlineAllocator_deallocate 32 s2 of
                None \<Rightarrow> False
              | Some s3 \<Rightarrow>
                  b = \<lparr>ptr = 4096, length' = 32\<rparr>
                  \<and> freelist (Node_next s2) (m_pFreelistRoot s2) [4096]
                  \<and> m_nNodesCount s2 = 1
                  \<and> m_pFreelistRoot s3 = nullptr
                  \<and> freelist (Node_next s3) (m_pFreelistRoot s3) []
                  \<and> m_nNodesCount s3 = 1)))"
  by (simp add: inRange_def FreelistAllocator_new_def LightInlineAllocator_allocate_def
        FreelistAllocator_allocate_def FreelistAllocator_allocateImpl_def
        FreelistAllocator_deallocate_def FreelistAllocator_deallocateAllImpl_unbounded_def
        deallocateAllImpl_loop_step deallocateAllImpl_loop_null LightInlineAllocator_deallocate_def)

text \<open>
  The overload for a Parent with \<^verbatim>\<open>deallocateAll\<close> leaves the counter where it was,
  too. With a bounded list this costs capacity: when the counter stood at \<^verbatim>\<open>MaxNodes\<close>,
  the emptied list takes no block any more, and every in-range block goes to the Parent.
\<close>

lemma FreelistAllocator_deallocateAllImpl_count:
  "m_pFreelistRoot (FreelistAllocator_deallocateAllImpl Parent_deallocateAll s) = nullptr
   \<and> m_nNodesCount (FreelistAllocator_deallocateAllImpl Parent_deallocateAll s) = m_nNodesCount s"
  by (simp add: FreelistAllocator_deallocateAllImpl_def)

lemma FreelistAllocator_full_after_deallocateAll:
  assumes "MaxNodes \<noteq> Allocator_unbounded" and "m_nNodesCount s = MaxNodes"
  shows "FreelistAllocator_deallocate Parent_deallocate MinSize MaxSize MaxNodes b
           (FreelistAllocator_deallocateAllImpl Parent_deallocateAll s)
         = Inr ((FreelistAllocator_deallocateAllImpl Parent_deallocateAll s)
                  \<lparr>Parent := Parent_deallocate b (Parent_deallocateAll (Parent s))\<rparr>)"
  using assms
  by (simp add: FreelistAllocator_deallocate_def FreelistAllocator_deallocateAllImpl_def)

text \<open>
  The two operations that do write the counter keep it right. From a fresh allocator,
  \<^verbatim>\<open>allocate\<close> and \<^verbatim>\<open>deallocate\<close> of blocks that are not in the list already preserve
  the agreement of counter and list; \<^verbatim>\<open>deallocateAll\<close> breaks it whenever the counter is
  not 0.
\<close>

lemma freelist_update_other:
  "a \<notin> set as \<Longrightarrow> freelist (mem(a := v)) p as = freelist mem p as"
  by (induction as arbitrary: p) auto

lemma freelist_unique: "freelist mem p as \<Longrightarrow> freelist mem p bs \<Longrightarrow> as = bs"
proof (induction as arbitrary: p bs)
  case Nil
  then show ?case by (cases bs) auto
next
  case (Cons a as)
  then show ?case by (cases bs) auto
qed

lemma nodes_counted_new: "nodes_counted (FreelistAllocator_new p mem)"
  unfolding nodes_counted_def FreelistAllocator_new_def
  by (rule exI [of _ "[]"]) simp

lemma nodes_counted_allocate:
  assumes "nodes_counted s"
  shows "nodes_counted (snd (FreelistAllocator_allocate Parent_allocate MinSize MaxSize n s))"
proof -
  from assms obtain as where as: "freelist (Node_next s) (m_pFreelistRoot s) as"
    and count: "m_nNodesCount s = of_nat (length as)"
    by (auto simp add: nodes_counted_def)
  show ?thesis
  proof (cases "inRange MinSize MaxSize n \<and> m_pFreelistRoot s \<noteq> nullptr")
    case False
    with assms show ?thesis
      by (auto simp add: nodes_counted_def FreelistAllocator_allocate_def
            FreelistAllocator_allocateImpl_def split: prod.splits)
  next
    case True
    with as obtain bs where bs: "as = m_pFreelistRoot s # bs"
      "freelist (Node_next s) (Node_next s (m_pFreelistRoot s)) bs"
      by (cases as) auto
    with count have "m_nNodesCount s - 1 = of_nat (length bs)"
      by simp
    with True bs show ?thesis
      unfolding nodes_counted_def FreelistAllocator_allocate_def FreelistAllocator_allocateImpl_def
      by (auto intro!: exI [of _ bs])
  qed
qed

lemma nodes_counted_deallocate:
  assumes "nodes_counted s"
    and fresh: "\<And>as. freelist (Node_next s) (m_pFreelistRoot s) as \<Longrightarrow> ptr b \<notin> set as"
    and returns: "FreelistAllocator_deallocate Parent_deallocate MinSize MaxSize MaxNodes b s = Inr s'"
  shows "nodes_counted s'"
proof -
  from assms obtain as where as: "freelist (Node_next s) (m_pFreelistRoot s) as"
    and count: "m_nNodesCount s = of_nat (length as)"
    by (auto simp add: nodes_counted_def)
  show ?thesis
  proof (cases "(MaxNodes = Allocator_unbounded \<or> m_nNodesCount s \<noteq> MaxNodes)
                  \<and> inRange MinSize MaxSize (length' b)")
    case False
    with returns have "s' = s\<lparr>Parent := Parent_deallocate b (Parent s)\<rparr>"
      by (auto simp add: FreelistAllocator_deallocate_def)
    with as count show ?thesis
      by (auto simp add: nodes_counted_def)
  next
    case True
    with returns have nonnull: "ptr b \<noteq> nullptr"
      and s': "s' = s\<lparr>m_pFreelistRoot := ptr b,
                      Node_next := (Node_next s)(ptr b := m_pFreelistRoot s),
                      m_nNodesCount := m_nNodesCount s + 1\<rparr>"
      by (auto simp add: FreelistAllocator_deallocate_def Let_def split: if_splits)
    from fresh [OF as] as
    have "freelist ((Node_next s)(ptr b := m_pFreelistRoot s)) (m_pFreelistRoot s) as"
      by (simp add: freelist_update_other)
    with nonnull
    have "freelist ((Node_next s)(ptr b := m_pFreelistRoot s)) (ptr b) (ptr b # as)"
      by simp
    moreover from count have "m_nNodesCount s + 1 = of_nat (length (ptr b # as))"
      by simp
    ultimately show ?thesis
      unfolding nodes_counted_def s' by (intro exI [of _ "ptr b # as"]) simp
  qed
qed

lemma nodes_counted_null:
  "m_pFreelistRoot s = nullptr \<Longrightarrow> nodes_counted s \<longleftrightarrow> m_nNodesCount s = 0"
proof -
  have "freelist mem nullptr as \<longleftrightarrow> as = []" for mem as
    by (cases as) simp_all
  then show "m_pFreelistRoot s = nullptr \<Longrightarrow> nodes_counted s \<longleftrightarrow> m_nNodesCount s = 0"
    by (simp add: nodes_counted_def)
qed

lemma not_nodes_counted_deallocateAllImpl:
  "m_nNodesCount s \<noteq> 0 \<Longrightarrow>
   \<not> nodes_counted (FreelistAllocator_deallocateAllImpl Parent_deallocateAll s)"
  by (simp add: nodes_counted_null FreelistAllocator_deallocateAllImpl_def)

lemma not_nodes_counted_deallocateAllImpl_unbounded:
  "m_nNodesCount s \<noteq> 0 \<Longrightarrow>
   FreelistAllocator_deallocateAllImpl_unbounded Parent_deallocate MaxSize s = Some s' \<Longrightarrow>
   \<not> nodes_counted s'"
  by (auto simp add: nodes_counted_null FreelistAllocator_deallocateAllImpl_unbounded_def
        split: option.splits)

end
